theory Spec2Isabelle
  imports Main "HOL-Library.Product_Lexorder"
begin

section \<open>Python values used by the reservation engine\<close>

text \<open>
  The engine (\<^verbatim>\<open>src/db.py\<close>, \<^verbatim>\<open>src/tools.py\<close>) is modelled on its in-memory
  store (\<^verbatim>\<open>use_mock = True\<close>), the only storage whose behaviour the source fixes.
  A Python \<^verbatim>\<open>str\<close> is a \<open>string\<close>; \<^verbatim>\<open>Optional[str]\<close> is \<open>string option\<close>.
  An \<^verbatim>\<open>if x:\<close> on an optional string or integer is false for \<^verbatim>\<open>None\<close>, for the
  empty string and for zero.
\<close>

definition truthy_str :: "string option \<Rightarrow> bool" where
  "truthy_str x = (case x of None \<Rightarrow> False | Some s \<Rightarrow> s \<noteq> [])"

definition truthy_int :: "int option \<Rightarrow> bool" where
  "truthy_int x = (case x of None \<Rightarrow> False | Some n \<Rightarrow> n \<noteq> 0)"

text \<open>The exceptions that leave the modelled operations uncaught.\<close>

datatype py_error = TypeError | OverflowError

subsection \<open>Decimal rendering of numbers\<close>

definition digit_char :: "nat \<Rightarrow> char" where
  "digit_char d = char_of (48 + d)"

text \<open>\<^verbatim>\<open>str(n)\<close> for a non-negative integer, as an f-string renders it.\<close>

fun str_nat :: "nat \<Rightarrow> string" where
  "str_nat n = (if n < 10 then [digit_char n] else str_nat (n div 10) @ [digit_char (n mod 10)])"

declare str_nat.simps [simp del]

text \<open>The zero-padded fields of \<^verbatim>\<open>strftime\<close>: \<^verbatim>\<open>%m %d %H %M %S\<close> and \<^verbatim>\<open>%Y\<close>.\<close>

definition pad2 :: "nat \<Rightarrow> string" where
  "pad2 n = [digit_char (n div 10 mod 10), digit_char (n mod 10)]"

definition pad4 :: "nat \<Rightarrow> string" where
  "pad4 n = [digit_char (n div 1000 mod 10), digit_char (n div 100 mod 10),
             digit_char (n div 10 mod 10), digit_char (n mod 10)]"

subsection \<open>datetime\<close>

text \<open>
  A \<^verbatim>\<open>datetime\<close> object: its civil fields and \<open>tzinfo\<close>, \<open>None\<close> for a naive value and
  the UTC offset in microseconds for an aware one.
\<close>

record datetime =
  year :: nat
  month :: nat
  day :: nat
  hour :: nat
  minute :: nat
  second :: nat
  microsecond :: nat
  tzinfo :: "int option"

definition is_leap :: "nat \<Rightarrow> bool" where
  "is_leap y = (y mod 4 = 0 \<and> (y mod 100 \<noteq> 0 \<or> y mod 400 = 0))"

definition days_in_month :: "nat \<Rightarrow> nat \<Rightarrow> nat" where
  "days_in_month y m =
     (if m = 2 then (if is_leap y then 29 else 28)
      else if m = 4 \<or> m = 6 \<or> m = 9 \<or> m = 11 then 30 else 31)"

definition days_before_year :: "nat \<Rightarrow> int" where
  "days_before_year y =
     (let p = int y - 1 in p * 365 + p div 4 - p div 100 + p div 400)"

definition days_before_month :: "nat \<Rightarrow> nat \<Rightarrow> int" where
  "days_before_month y m = (\<Sum>k \<leftarrow> [1..<m]. int (days_in_month y k))"

definition ymd2ord :: "nat \<Rightarrow> nat \<Rightarrow> nat \<Rightarrow> int" where
  "ymd2ord y m d = days_before_year y + days_before_month y m + int d"

text \<open>The wall-clock value of the civil fields, in microseconds since 0001-01-01 00:00.\<close>

definition wall_us :: "datetime \<Rightarrow> int" where
  "wall_us dt =
     (((ymd2ord (year dt) (month dt) (day dt) - 1) * 24 + int (hour dt)) * 60
        + int (minute dt)) * 60000000
      + int (second dt) * 1000000 + int (microsecond dt)"

text \<open>
  The clock a call reads: \<open>now\<close> holds the civil fields \<^verbatim>\<open>datetime.now()\<close> returns, and
  \<open>utcoffset\<close> is the offset of the server's zone in microseconds. One operation reads
  one instant. \<^verbatim>\<open>timestamp()\<close> is kept exact, in microseconds since the Unix epoch, where
  Python rounds to a float of seconds; a naive value is read in the server's zone.
\<close>

record clock =
  now :: datetime
  utcoffset :: int

definition datetime_now :: "clock \<Rightarrow> datetime" where
  "datetime_now clk = (now clk)\<lparr>tzinfo := None\<rparr>"

definition epoch_us :: int where
  "epoch_us = (ymd2ord 1970 1 1 - 1) * 86400000000"

definition timestamp :: "clock \<Rightarrow> datetime \<Rightarrow> int" where
  "timestamp clk dt =
     (case tzinfo dt of
        None \<Rightarrow> wall_us dt - utcoffset clk - epoch_us
      | Some off \<Rightarrow> wall_us dt - off - epoch_us)"

text \<open>Naive values compare field by field, as \<^verbatim>\<open>datetime._cmp\<close> does.\<close>

definition dt_key :: "datetime \<Rightarrow> nat \<times> nat \<times> nat \<times> nat \<times> nat \<times> nat \<times> nat" where
  "dt_key dt = (year dt, month dt, day dt, hour dt, minute dt, second dt, microsecond dt)"

definition dt_less :: "datetime \<Rightarrow> datetime \<Rightarrow> bool" where
  "dt_less a b = (dt_key a < dt_key b)"

definition dt_le :: "datetime \<Rightarrow> datetime \<Rightarrow> bool" where
  "dt_le a b = (dt_key a \<le> dt_key b)"

text \<open>\<^verbatim>\<open>strftime("%Y-%m-%dT%H:%M:%S")\<close>.\<close>

definition strftime :: "datetime \<Rightarrow> string" where
  "strftime dt =
     pad4 (year dt) @ ''-'' @ pad2 (month dt) @ ''-'' @ pad2 (day dt) @ ''T''
       @ pad2 (hour dt) @ '':'' @ pad2 (minute dt) @ '':'' @ pad2 (second dt)"

text \<open>\<^verbatim>\<open>s.replace('Z', '+00:00')\<close>: every occurrence is replaced.\<close>

definition replace_Z :: "string \<Rightarrow> string" where
  "replace_Z s = concat (map (\<lambda>c. if c = CHR ''Z'' then ''+00:00'' else [c]) s)"

subsection \<open>A reference reading of ISO strings\<close>

text \<open>
  \<^verbatim>\<open>datetime.fromisoformat\<close> belongs to the Python library and its grammar grew between
  versions, so every operation below takes the parser as its first argument \<open>P\<close>, with
  \<open>None\<close> for a \<^verbatim>\<open>ValueError\<close>. The function \<open>fromisoformat\<close> is a reference instance for
  concrete scenarios: it reads \<^verbatim>\<open>YYYY-MM-DD\<close>, optionally followed by one separator
  character and \<^verbatim>\<open>HH\<close>, \<^verbatim>\<open>HH:MM\<close> or \<^verbatim>\<open>HH:MM:SS\<close> and an offset \<^verbatim>\<open>+HH:MM\<close> or \<^verbatim>\<open>-HH:MM\<close>,
  the forms every version since 3.7 accepts, and rejects everything else.
\<close>

definition digit_of :: "char \<Rightarrow> nat option" where
  "digit_of c = (let n = (of_char c :: nat) in if 48 \<le> n \<and> n \<le> 57 then Some (n - 48) else None)"

fun number_of :: "nat \<Rightarrow> string \<Rightarrow> nat option" where
  "number_of acc [] = Some acc"
| "number_of acc (c # cs) =
     (case digit_of c of None \<Rightarrow> None | Some d \<Rightarrow> number_of (10 * acc + d) cs)"

definition parse_hms :: "string \<Rightarrow> (nat \<times> nat \<times> nat) option" where
  "parse_hms t =
     (if length t = 2 then
        (case number_of 0 t of None \<Rightarrow> None | Some h \<Rightarrow> Some (h, 0, 0))
      else if length t = 5 \<and> t ! 2 = CHR '':'' then
        (case (number_of 0 (take 2 t), number_of 0 (drop 3 t)) of
           (Some h, Some m) \<Rightarrow> Some (h, m, 0) | _ \<Rightarrow> None)
      else if length t = 8 \<and> t ! 2 = CHR '':'' \<and> t ! 5 = CHR '':'' then
        (case (number_of 0 (take 2 t), number_of 0 (take 2 (drop 3 t)), number_of 0 (drop 6 t)) of
           (Some h, Some m, Some s) \<Rightarrow> Some (h, m, s) | _ \<Rightarrow> None)
      else None)"

definition parse_offset :: "string \<Rightarrow> int option option" where
  "parse_offset z =
     (if z = [] then Some None
      else if length z = 6 \<and> z ! 3 = CHR '':'' then
        (case (number_of 0 (take 2 (tl z)), number_of 0 (drop 4 z)) of
           (Some h, Some m) \<Rightarrow>
             if h < 24 \<and> m < 60 then
               Some (Some ((if hd z = CHR ''-'' then - 1 else 1)
                             * (int h * 3600 + int m * 60) * 1000000))
             else None
         | _ \<Rightarrow> None)
      else None)"

definition fromisoformat :: "string \<Rightarrow> datetime option" where
  "fromisoformat s =
     (if 10 \<le> length s \<and> length s \<noteq> 11 \<and> s ! 4 = CHR ''-'' \<and> s ! 7 = CHR ''-'' then
        (case (number_of 0 (take 4 s), number_of 0 (take 2 (drop 5 s)),
               number_of 0 (take 2 (drop 8 s))) of
           (Some y, Some m, Some d) \<Rightarrow>
             if 1 \<le> y \<and> y \<le> 9999 \<and> 1 \<le> m \<and> m \<le> 12 \<and> 1 \<le> d \<and> d \<le> days_in_month y m then
               (let t = drop 11 s;
                    is_sign = (\<lambda>c. c = CHR ''+'' \<or> c = CHR ''-'');
                    hms = (if t = [] then Some (0, 0, 0)
                           else parse_hms (takeWhile (\<lambda>c. \<not> is_sign c) t))
                in case (hms, parse_offset (dropWhile (\<lambda>c. \<not> is_sign c) t)) of
                     (Some (h, mi, sec), Some tz) \<Rightarrow>
                       if h < 24 \<and> mi < 60 \<and> sec < 60 then
                         Some \<lparr>year = y, month = m, day = d, hour = h, minute = mi,
                               second = sec, microsecond = 0, tzinfo = tz\<rparr>
                       else None
                   | _ \<Rightarrow> None)
             else None
         | _ \<Rightarrow> None)
      else None)"

section \<open>The in-memory store of \<^verbatim>\<open>db.py\<close>\<close>

record user =
  user_id_of :: string
  contact_number :: string
  name :: string
  user_created_at :: datetime

record appointment =
  appt_id :: string
  user_id :: string
  start_time :: string
  end_time :: string
  status :: string
  num_people :: int
  details :: string
  created_at :: datetime

text \<open>
  \<^verbatim>\<open>Database\<close>: the lists \<^verbatim>\<open>self.users\<close> and \<^verbatim>\<open>self.appointments\<close>. (\<^verbatim>\<open>self.summaries\<close>
  and \<^verbatim>\<open>self.tables\<close> are read by none of the operations below.) The creation times are
  kept as the \<^verbatim>\<open>datetime\<close> value whose \<^verbatim>\<open>isoformat()\<close> text the source stores.
\<close>

record database =
  users :: "user list"
  appointments :: "appointment list"

definition opening_hour :: nat where "opening_hour = 10"
definition closing_hour :: nat where "closing_hour = 22"


subsection \<open>Guests\<close>

text \<open>
  The loop of \<^verbatim>\<open>get_or_create_user\<close> over \<^verbatim>\<open>self.users\<close>: the first user with the contact
  number is updated in place when a name is given, and returned.
\<close>

fun find_user :: "user list \<Rightarrow> string \<Rightarrow> string option \<Rightarrow> (user list \<times> user) option" where
  "find_user [] c nm = None"
| "find_user (u # us) c nm =
     (if contact_number u = c then
        (let u' = (if truthy_str nm then u\<lparr>name := the nm\<rparr> else u) in Some (u' # us, u'))
      else
        (case find_user us c nm of
           None \<Rightarrow> None
         | Some (us', r) \<Rightarrow> Some (u # us', r)))"

definition get_or_create_user :: "clock \<Rightarrow> database \<Rightarrow> string \<Rightarrow> string option \<Rightarrow> database \<times> user" where
  "get_or_create_user clk db c nm =
     (case find_user (users db) c nm of
        Some (us', u) \<Rightarrow> (db\<lparr>users := us'\<rparr>, u)
      | None \<Rightarrow>
          (let new_user = \<lparr>user_id_of = ''user_'' @ str_nat (length (users db) + 1),
                           contact_number = c,
                           name = (if truthy_str nm then the nm else ''Unknown''),
                           user_created_at = datetime_now clk\<rparr>
           in (db\<lparr>users := users db @ [new_user]\<rparr>, new_user)))"

subsection \<open>Appointments\<close>

text \<open>
  \<^verbatim>\<open>create_appointment\<close> parses the start time and ignores both the value and a
  \<^verbatim>\<open>ValueError\<close>, so the parser does not appear. \<open>int_text\<close> is \<^verbatim>\<open>str\<close> of an integer.
\<close>

definition int_text :: "int \<Rightarrow> string" where
  "int_text n = (if n < 0 then ''-'' @ str_nat (nat (- n)) else str_nat (nat n))"

definition create_appointment ::
  "clock \<Rightarrow> database \<Rightarrow> string \<Rightarrow> string \<Rightarrow> int \<Rightarrow> string \<Rightarrow> database \<times> appointment" where
  "create_appointment clk db uid st n dtl =
     (let final_details = ''Guests: '' @ int_text n @ ''. '' @ dtl;
          appt = \<lparr>appt_id = ''appt_'' @ str_nat (length (appointments db) + 1),
                  user_id = uid,
                  start_time = st,
                  end_time = ''TBD'',
                  status = ''booked'',
                  num_people = n,
                  details = final_details,
                  created_at = datetime_now clk\<rparr>
      in (db\<lparr>appointments := appointments db @ [appt]\<rparr>, appt))"

definition get_user_appointments :: "database \<Rightarrow> string \<Rightarrow> appointment list" where
  "get_user_appointments db uid =
     filter (\<lambda>a. user_id a = uid \<and> status a \<noteq> ''cancelled'') (appointments db)"

text \<open>
  The loop of \<^verbatim>\<open>cancel_appointment\<close>: the first appointment with the id is marked
  cancelled and the loop returns \<^verbatim>\<open>True\<close>, whatever its status was.
\<close>

fun cancel_loop :: "appointment list \<Rightarrow> string \<Rightarrow> appointment list \<times> bool" where
  "cancel_loop [] i = ([], False)"
| "cancel_loop (a # as) i =
     (if appt_id a = i then (a\<lparr>status := ''cancelled''\<rparr> # as, True)
      else (let (as', r) = cancel_loop as i in (a # as', r)))"

definition cancel_appointment :: "database \<Rightarrow> string \<Rightarrow> database \<times> bool" where
  "cancel_appointment db i =
     (let (as', r) = cancel_loop (appointments db) i in (db\<lparr>appointments := as'\<rparr>, r))"

fun update_loop :: "appointment list \<Rightarrow> string \<Rightarrow> string \<Rightarrow> appointment list \<times> bool" where
  "update_loop [] i d = ([], False)"
| "update_loop (a # as) i d =
     (if appt_id a = i then (a\<lparr>details := d\<rparr> # as, True)
      else (let (as', r) = update_loop as i d in (a # as', r)))"

definition update_appointment :: "database \<Rightarrow> string \<Rightarrow> string \<Rightarrow> database \<times> bool" where
  "update_appointment db i d =
     (let (as', r) = update_loop (appointments db) i d in (db\<lparr>appointments := as'\<rparr>, r))"

subsection \<open>Availability\<close>

text \<open>
  \<^verbatim>\<open>check_availability\<close>. Inside the \<^verbatim>\<open>try\<close>: parse, compare the timestamp with the
  clock's minus 120 seconds, then the hour with the opening hours; a \<^verbatim>\<open>ValueError\<close>
  returns \<^verbatim>\<open>False\<close>. Both branches on \<^verbatim>\<open>dt.tzinfo\<close> read the same instant, so
  \<^verbatim>\<open>now.timestamp()\<close> is the timestamp of the clock in either. After the \<^verbatim>\<open>try\<close>: the
  slot is free when no appointment has the same start-time string and status booked.
  The party size is not read.
\<close>

definition check_availability ::
  "(string \<Rightarrow> datetime option) \<Rightarrow> clock \<Rightarrow> database \<Rightarrow> string \<Rightarrow> int \<Rightarrow> bool" where
  "check_availability P clk db st n =
     (case P (replace_Z st) of
        None \<Rightarrow> False
      | Some dt \<Rightarrow>
          if timestamp clk dt < timestamp clk (datetime_now clk) - 120000000 then False
          else if hour dt < opening_hour \<or> closing_hour \<le> hour dt then False
          else \<not> list_ex (\<lambda>a. start_time a = st \<and> status a = ''booked'') (appointments db))"

subsection \<open>The next free slot\<close>

text \<open>
  \<^verbatim>\<open>date + timedelta(days=k)\<close>, one day at a time; past 9999-12-31 Python raises
  \<^verbatim>\<open>OverflowError\<close>.
\<close>

type_synonym date = "nat \<times> nat \<times> nat"

definition next_day :: "date \<Rightarrow> date option" where
  "next_day dd =
     (case dd of (y, m, d) \<Rightarrow>
        if d < days_in_month y m then Some (y, m, d + 1)
        else if m < 12 then Some (y, m + 1, 1)
        else if y < 9999 then Some (y + 1, 1, 1)
        else None)"

fun date_add_days :: "date \<Rightarrow> nat \<Rightarrow> date option" where
  "date_add_days dd 0 = Some dd"
| "date_add_days dd (Suc k) =
     (case next_day dd of None \<Rightarrow> None | Some dd' \<Rightarrow> date_add_days dd' k)"

definition combine :: "date \<Rightarrow> nat \<Rightarrow> datetime" where
  "combine dd h =
     (case dd of (y, m, d) \<Rightarrow>
        \<lparr>year = y, month = m, day = d, hour = h, minute = 0, second = 0,
         microsecond = 0, tzinfo = None\<rparr>)"

definition available_hours :: "nat list" where
  "available_hours = [10, 14, 17, 18, 19]"

text \<open>The inner loop over the hours of one day, and the outer loop over the day offsets.\<close>

fun scan_hours ::
  "(string \<Rightarrow> datetime option) \<Rightarrow> clock \<Rightarrow> database \<Rightarrow> datetime \<Rightarrow> date \<Rightarrow> nat list
     \<Rightarrow> string option" where
  "scan_hours P clk db ref dd [] = None"
| "scan_hours P clk db ref dd (h # hs) =
     (let slot_time = combine dd h in
      if dt_le slot_time ref then scan_hours P clk db ref dd hs
      else if check_availability P clk db (strftime slot_time) 1 then Some (strftime slot_time)
      else scan_hours P clk db ref dd hs)"

fun scan_days ::
  "(string \<Rightarrow> datetime option) \<Rightarrow> clock \<Rightarrow> database \<Rightarrow> datetime \<Rightarrow> nat list
     \<Rightarrow> py_error + string option" where
  "scan_days P clk db ref [] = Inr None"
| "scan_days P clk db ref (k # ks) =
     (case date_add_days (year ref, month ref, day ref) k of
        None \<Rightarrow> Inl OverflowError
      | Some check_date \<Rightarrow>
          (case scan_hours P clk db ref check_date available_hours of
             Some s \<Rightarrow> Inr (Some s)
           | None \<Rightarrow> scan_days P clk db ref ks))"

text \<open>
  \<^verbatim>\<open>get_next_available_slot\<close>. \<^verbatim>\<open>max(dt, now)\<close> compares \<^verbatim>\<open>now > dt\<close>, which raises
  \<^verbatim>\<open>TypeError\<close> when \<^verbatim>\<open>dt\<close> is aware, \<^verbatim>\<open>now\<close> being naive; only \<^verbatim>\<open>ValueError\<close> is caught.
\<close>

definition get_next_available_slot ::
  "(string \<Rightarrow> datetime option) \<Rightarrow> clock \<Rightarrow> database \<Rightarrow> string \<Rightarrow> py_error + string option" where
  "get_next_available_slot P clk db from_time =
     (let dt = (case P (replace_Z from_time) of None \<Rightarrow> datetime_now clk | Some d \<Rightarrow> d) in
      case tzinfo dt of
        Some off \<Rightarrow> Inl TypeError
      | None \<Rightarrow>
          (let reference_time = (if dt_less dt (datetime_now clk) then datetime_now clk else dt)
           in scan_days P clk db reference_time [0..<7]))"

section \<open>The tools of \<^verbatim>\<open>tools.py\<close>\<close>

text \<open>
  \<^verbatim>\<open>ReservationTools\<close> keeps the identified guest and the bookings of the call. The
  events published to the room change neither the store nor the session nor the value
  returned, and are left out.
\<close>

record session =
  s_user_id :: "string option"
  user_context :: "user option"
  session_bookings :: "appointment list"
  session_preferences :: "string list"

text \<open>
  A tool returns a sentence; the model returns which \<^verbatim>\<open>return\<close> statement was reached
  together with the values the sentence is built from (times stay ISO strings, where the
  source renders them with \<^verbatim>\<open>format_datetime_human\<close>). A rejected booking has three
  sentences: the one for a past date, which holds the next slot or the words "another
  time"; the one for a taken slot with a next slot; and the one with no next slot. They
  are \<open>BookRejected PastDate n\<close>, \<open>BookRejected Unavailable (Some s)\<close> and
  \<open>BookRejected Unavailable None\<close>; the same holds for \<open>ModifyRejected\<close>, which also
  holds the current booking the sentence quotes.
\<close>

datatype reason = PastDate | Unavailable

datatype response =
    InvalidPhone string
  | UserIdentified string
  | BookInvalidPhone string
  | AuthRequired
  | BookRejected reason "string option"
  | Booked string string int string
  | CancelDone string
  | CancelFailed string
  | SpecifyChange
  | VerifyIdentity
  | ModifyNotFound
  | ModifyRejected reason "string option" appointment
  | Modified string string int string

text \<open>
  \<^verbatim>\<open>str.isdigit\<close> on the code points below 256, which is what a \<open>char\<close> holds: the ASCII
  digits and the superscripts U+00B2, U+00B3 and U+00B9.
\<close>

definition isdigit :: "char \<Rightarrow> bool" where
  "isdigit c =
     (let n = (of_char c :: nat) in (48 \<le> n \<and> n \<le> 57) \<or> n = 178 \<or> n = 179 \<or> n = 185)"


text \<open>
  The classification of a refused time in \<^verbatim>\<open>book_appointment\<close> and
  \<^verbatim>\<open>modify_appointment\<close>: past when the time parses and lies before the clock, with no
  tolerance; any exception gives \<^verbatim>\<open>False\<close>.
\<close>

definition is_past :: "(string \<Rightarrow> datetime option) \<Rightarrow> clock \<Rightarrow> string \<Rightarrow> bool" where
  "is_past P clk st =
     (case P (replace_Z st) of
        None \<Rightarrow> False
      | Some dt \<Rightarrow> timestamp clk dt < timestamp clk (datetime_now clk))"

definition user_name :: "session \<Rightarrow> string" where
  "user_name ss = (case user_context ss of None \<Rightarrow> ''Guest'' | Some u \<Rightarrow> name u)"

text \<open>
  \<^verbatim>\<open>book_appointment\<close>, from the availability check on, for a session that holds a
  guest id. An exception of \<^verbatim>\<open>get_next_available_slot\<close> is not caught and leaves the
  tool with the store and session as they are at that point.
\<close>

definition book_identified ::
  "(string \<Rightarrow> datetime option) \<Rightarrow> clock \<Rightarrow> database \<Rightarrow> session \<Rightarrow> string \<Rightarrow> int \<Rightarrow> string
     \<Rightarrow> database \<times> session \<times> (py_error + response)" where
  "book_identified P clk db ss st n dtl =
     (if \<not> check_availability P clk db st n then
        (case get_next_available_slot P clk db st of
           Inl e \<Rightarrow> (db, ss, Inl e)
         | Inr next_slot \<Rightarrow>
             (db, ss, Inr (BookRejected (if is_past P clk st then PastDate else Unavailable)
                                         next_slot)))
      else
        (let (db', appt) = create_appointment clk db (the (s_user_id ss)) st n dtl;
             ss' = ss\<lparr>session_bookings := session_bookings ss @ [appt]\<rparr>
         in (db', ss', Inr (Booked (user_name ss') st n (appt_id appt)))))"

text \<open>
  \<^verbatim>\<open>book_appointment\<close>: the implicit identification runs first when the session holds
  no guest id; the default of \<^verbatim>\<open>details\<close> is \<^verbatim>\<open>"General Reservation"\<close>.
\<close>

definition book_appointment ::
  "(string \<Rightarrow> datetime option) \<Rightarrow> clock \<Rightarrow> database \<Rightarrow> session \<Rightarrow> string \<Rightarrow> int
     \<Rightarrow> string option \<Rightarrow> string option \<Rightarrow> string
     \<Rightarrow> database \<times> session \<times> (py_error + response)" where
  "book_appointment P clk db ss st n nm contact dtl =
     (if \<not> truthy_str (s_user_id ss) then
        (if truthy_str contact then
           (let digits = filter isdigit (the contact) in
            if length digits < 10 then (db, ss, Inr (BookInvalidPhone (the contact)))
            else
              (let normalized_number = drop (length digits - 10) digits;
                   (db', u) = get_or_create_user clk db normalized_number nm;
                   ss' = ss\<lparr>s_user_id := Some (user_id_of u), user_context := Some u\<rparr>
               in book_identified P clk db' ss' st n dtl))
         else (db, ss, Inr AuthRequired))
      else book_identified P clk db ss st n dtl)"

definition cancel_appointment_tool ::
  "database \<Rightarrow> session \<Rightarrow> string \<Rightarrow> database \<times> session \<times> response" where
  "cancel_appointment_tool db ss i =
     (let (db', success) = cancel_appointment db i in
      if success then (db', ss, CancelDone i) else (db', ss, CancelFailed i))"

text \<open>
  \<^verbatim>\<open>modify_appointment\<close>. \<^verbatim>\<open>next(...)\<close> takes the first of the guest's active
  appointments with the id. \<^verbatim>\<open>a or b\<close> on an optional value keeps \<^verbatim>\<open>a\<close> when it is
  truthy.
\<close>

definition modify_appointment ::
  "(string \<Rightarrow> datetime option) \<Rightarrow> clock \<Rightarrow> database \<Rightarrow> session \<Rightarrow> string
     \<Rightarrow> string option \<Rightarrow> int option \<Rightarrow> string option
     \<Rightarrow> database \<times> session \<times> (py_error + response)" where
  "modify_appointment P clk db ss i new_start_time new_num_people new_details =
     (if \<not> truthy_str new_start_time \<and> \<not> truthy_int new_num_people \<and> \<not> truthy_str new_details
      then (db, ss, Inr SpecifyChange)
      else if \<not> truthy_str (s_user_id ss) then (db, ss, Inr VerifyIdentity)
      else
        (case find (\<lambda>a. appt_id a = i) (get_user_appointments db (the (s_user_id ss))) of
           None \<Rightarrow> (db, ss, Inr ModifyNotFound)
         | Some original \<Rightarrow>
             (let current_people = num_people original;
                  final_time = (if truthy_str new_start_time then the new_start_time
                                else start_time original);
                  final_people = (if truthy_int new_num_people then the new_num_people
                                  else current_people);
                  final_details = (if truthy_str new_details then the new_details
                                   else details original)
              in
                if truthy_str new_start_time
                   \<and> \<not> check_availability P clk db final_time final_people
                then
                  (case get_next_available_slot P clk db final_time of
                     Inl e \<Rightarrow> (db, ss, Inl e)
                   | Inr next_slot \<Rightarrow>
                       (db, ss, Inr (ModifyRejected
                                       (if is_past P clk final_time then PastDate else Unavailable)
                                       next_slot original)))
                else
                  (let (db1, ok) = cancel_appointment db i;
                       (db2, appt) = create_appointment clk db1 (the (s_user_id ss))
                                       final_time final_people final_details
                   in (db2, ss, Inr (Modified (user_name ss) final_time final_people
                                              (appt_id appt)))))))"


section \<open>Specification-side definitions and concrete scenarios\<close>

text \<open>
  The identifiers the store hands out: the k-th appointment created (counting from 1)
  carries the id \<^verbatim>\<open>appt_k\<close>. The store starts empty, appointments are only appended and
  never removed, so every reachable store satisfies this.
\<close>

definition appt_ids_wf :: "database \<Rightarrow> bool" where
  "appt_ids_wf db =
     (map appt_id (appointments db)
        = map (\<lambda>k. ''appt_'' @ str_nat (Suc k)) [0..<length (appointments db)])"

text \<open>The store of \<^verbatim>\<open>Database.__init__\<close> and the session of \<^verbatim>\<open>ReservationTools.__init__\<close>.\<close>

definition empty_db :: database where
  "empty_db = \<lparr>users = [], appointments = []\<rparr>"

definition new_session :: session where
  "new_session = \<lparr>s_user_id = None, user_context = None, session_bookings = [],
                   session_preferences = []\<rparr>"

text \<open>A clock at noon of 2023-10-27, in a zone five and a half hours ahead of UTC.\<close>

definition example_clock :: clock where
  "example_clock = \<lparr>now = combine (2023, 10, 27) 12, utcoffset = 19800000000\<rparr>"

text \<open>One booking in the empty store, cancelled once and then once more.\<close>

definition booked_once :: "database \<times> appointment" where
  "booked_once =
     create_appointment example_clock empty_db ''user_1'' ''2023-10-27T19:00:00'' 2
       ''General Reservation''"

definition cancelled_once :: "database \<times> bool" where
  "cancelled_once = cancel_appointment (fst booked_once) ''appt_1''"

definition cancelled_twice :: "database \<times> bool" where
  "cancelled_twice = cancel_appointment (fst cancelled_once) ''appt_1''"


text \<open>The first guest of the empty store, and the store that holds her.\<close>

definition ana :: user where
  "ana = \<lparr>user_id_of = ''user_1'', contact_number = ''5551234567'', name = ''Ana'',
          user_created_at = datetime_now example_clock\<rparr>"

definition ana_db :: database where
  "ana_db = \<lparr>users = [ana], appointments = []\<rparr>"

text \<open>A session in which Ana is identified.\<close>

definition ana_session :: session where
  "ana_session = \<lparr>s_user_id = Some ''user_1'', user_context = Some ana,
                   session_bookings = [], session_preferences = []\<rparr>"

text \<open>
  The reference time in the words of the specification (section 4.2): the later of the
  parsed time and the clock, and the clock alone when the time does not parse.
\<close>

definition reference_time :: "(string \<Rightarrow> datetime option) \<Rightarrow> clock \<Rightarrow> string \<Rightarrow> datetime" where
  "reference_time P clk from_time =
     (case P (replace_Z from_time) of
        None \<Rightarrow> datetime_now clk
      | Some d \<Rightarrow> if dt_less d (datetime_now clk) then datetime_now clk else d)"

text \<open>
  The clock reads a time that is not after \<open>dt\<close>, as civil fields and as an instant.
\<close>

definition not_after :: "clock \<Rightarrow> datetime \<Rightarrow> bool" where
  "not_after clk dt =
     (dt_le (datetime_now clk) dt \<and> timestamp clk (datetime_now clk) \<le> timestamp clk dt)"

text \<open>
  The scenario of the specification: Ana books 19:00 for two in the empty store, giving
  her name and number with the booking, and the same time is asked for once more.
\<close>

definition ana_booked_db :: database where
  "ana_booked_db = \<lparr>users = [ana], appointments = [snd booked_once]\<rparr>"

definition ana_booked_session :: session where
  "ana_booked_session = ana_session\<lparr>session_bookings := [snd booked_once]\<rparr>"

definition first_booking :: "database \<times> session \<times> (py_error + response)" where
  "first_booking =
     book_appointment fromisoformat example_clock empty_db new_session ''2023-10-27T19:00:00'' 2
       (Some ''Ana'') (Some ''555-123-4567'') ''General Reservation''"

definition second_booking :: "database \<times> session \<times> (py_error + response)" where
  "second_booking =
     book_appointment fromisoformat example_clock (fst first_booking) (fst (snd first_booking))
       ''2023-10-27T19:00:00'' 2 None None ''General Reservation''"

section \<open>Properties of the store\<close>

subsection \<open>Identifiers are fresh\<close>






subsection \<open>Creating and cancelling\<close>

lemma create_appointment_appts:
  "appointments (fst (create_appointment clk db uid s n dtl))
     = appointments db @ [snd (create_appointment clk db uid s n dtl)]"
  by (simp add: create_appointment_def Let_def)

lemma create_appointment_users:
  "users (fst (create_appointment clk db uid s n dtl)) = users db"
  by (simp add: create_appointment_def Let_def)

lemma create_appointment_fields:
  "appt_id (snd (create_appointment clk db uid s n dtl))
     = ''appt_'' @ str_nat (length (appointments db) + 1)"
  "status (snd (create_appointment clk db uid s n dtl)) = ''booked''"
  "start_time (snd (create_appointment clk db uid s n dtl)) = s"
  "num_people (snd (create_appointment clk db uid s n dtl)) = n"
  "user_id (snd (create_appointment clk db uid s n dtl)) = uid"
  by (simp_all add: create_appointment_def Let_def)

lemma cancel_loop_known: "i \<in> appt_id ` set as \<Longrightarrow> snd (cancel_loop as i) = True"
  by (induction as) (auto split: prod.splits)

lemma cancel_loop_unknown: "i \<notin> appt_id ` set as \<Longrightarrow> cancel_loop as i = (as, False)"
  by (induction as) (auto split: prod.splits)

lemma cancel_loop_ids: "map appt_id (fst (cancel_loop as i)) = map appt_id as"
  by (induction as) (auto split: prod.splits)

lemma cancel_loop_length: "length (fst (cancel_loop as i)) = length as"
  by (induction as) (auto split: prod.splits)

lemma cancel_loop_idem: "fst (cancel_loop (fst (cancel_loop as i)) i) = fst (cancel_loop as i)"
  by (induction as) (auto split: prod.splits)


lemma cancel_appointment_appts:
  "appointments (fst (cancel_appointment db i)) = fst (cancel_loop (appointments db) i)"
  "snd (cancel_appointment db i) = snd (cancel_loop (appointments db) i)"
  "users (fst (cancel_appointment db i)) = users db"
  by (simp_all add: cancel_appointment_def split: prod.splits)



lemma appt_ids_wf_cancel: "appt_ids_wf db \<Longrightarrow> appt_ids_wf (fst (cancel_appointment db i))"
  by (simp add: appt_ids_wf_def cancel_appointment_appts cancel_loop_ids cancel_loop_length)

subsection \<open>Availability\<close>

lemma check_availability_iff:
  "check_availability P clk db s m \<longleftrightarrow>
     (\<exists>dt. P (replace_Z s) = Some dt
         \<and> \<not> timestamp clk dt < timestamp clk (datetime_now clk) - 120000000
         \<and> opening_hour \<le> hour dt \<and> hour dt < closing_hour)
     \<and> (\<forall>a \<in> set (appointments db). start_time a = s \<longrightarrow> status a \<noteq> ''booked'')"
  by (auto simp: check_availability_def list_ex_iff split: option.splits)


lemma check_availability_append_other:
  "start_time a \<noteq> s \<Longrightarrow>
   check_availability P clk (db\<lparr>appointments := appointments db @ [a]\<rparr>) s m
     = check_availability P clk db s m"
  by (auto simp: check_availability_iff)

section \<open>The claims about the store\<close>



text \<open>
  Claim C2. \<^verbatim>\<open>check_availability\<close> always returns a truth value, and it is false when
  the string does not parse; when it parses to a time more than 120 seconds before the
  clock, whatever its hour; and when the hour of the parsed time is below 10 or at least
  22; each of them for every store, so whatever is booked. (The three checks run in
  this order in the definition; the order cannot be seen in the value returned.)
\<close>

theorem check_availability_fails_closed:
  "(P (replace_Z st) = None \<longrightarrow> \<not> check_availability P clk db st n) \<and>
   (\<forall>dt. P (replace_Z st) = Some dt
          \<and> timestamp clk dt < timestamp clk (datetime_now clk) - 120000000
         \<longrightarrow> \<not> check_availability P clk db st n) \<and>
   (\<forall>dt. P (replace_Z st) = Some dt \<and> (hour dt < 10 \<or> 22 \<le> hour dt)
         \<longrightarrow> \<not> check_availability P clk db st n)"
  by (auto simp: check_availability_def opening_hour_def closing_hour_def)

text \<open>One input for each of the three cases.\<close>

theorem check_availability_fails_closed_witness:
  "fromisoformat (replace_Z ''seven tonight'') = None
   \<and> \<not> check_availability fromisoformat example_clock empty_db ''seven tonight'' 2
   \<and> fromisoformat (replace_Z ''2023-10-27T11:00:00'') = Some (combine (2023, 10, 27) 11)
   \<and> timestamp example_clock (combine (2023, 10, 27) 11)
        < timestamp example_clock (datetime_now example_clock) - 120000000
   \<and> \<not> check_availability fromisoformat example_clock empty_db ''2023-10-27T11:00:00'' 2
   \<and> fromisoformat (replace_Z ''2023-10-27T22:00:00'') = Some (combine (2023, 10, 27) 22)
   \<and> 22 \<le> hour (combine (2023, 10, 27) 22)
   \<and> \<not> check_availability fromisoformat example_clock empty_db ''2023-10-27T22:00:00'' 2"
proof -
  have a: "fromisoformat (replace_Z ''seven tonight'') = None" by code_simp
  have b: "fromisoformat (replace_Z ''2023-10-27T11:00:00'') = Some (combine (2023, 10, 27) 11)"
    by code_simp
  have b': "timestamp example_clock (combine (2023, 10, 27) 11)
        < timestamp example_clock (datetime_now example_clock) - 120000000" by code_simp
  have c: "fromisoformat (replace_Z ''2023-10-27T22:00:00'') = Some (combine (2023, 10, 27) 22)"
    by code_simp
  have c': "22 \<le> hour (combine (2023, 10, 27) 22)" by code_simp
  from check_availability_fails_closed[of fromisoformat "''seven tonight''" example_clock empty_db 2]
       check_availability_fails_closed[of fromisoformat "''2023-10-27T11:00:00''" example_clock empty_db 2]
       check_availability_fails_closed[of fromisoformat "''2023-10-27T22:00:00''" example_clock empty_db 2]
       a b b' c c'
  show ?thesis by blast
qed

text \<open>
  Claim C7 says that cancelling an appointment a second time returns false. The loop
  of \<^verbatim>\<open>cancel_appointment\<close> does not look at the status: on the store with the single
  appointment \<^verbatim>\<open>appt_1\<close>, the first cancellation returns true, and so does the second,
  which leaves the store as the first one left it. (The message of the tool for a
  false result reads "or it's already cancelled".)
\<close>

theorem cancel_twice_returns_True:
  "appt_id (snd booked_once) = ''appt_1'' \<and> status (snd booked_once) = ''booked''
   \<and> snd cancelled_once = True \<and> snd cancelled_twice = True
   \<and> fst cancelled_twice = fst cancelled_once"
  by code_simp

text \<open>
  Claim C10. The conflict check compares start-time strings: booking an appointment
  at a string \<open>s1\<close> leaves the availability of every other string \<open>s2\<close> as it was, also
  when both denote the same time.
\<close>

theorem conflict_check_is_string_equality:
  "s1 \<noteq> s2 \<Longrightarrow>
   check_availability P clkb (fst (create_appointment clka db uid s1 n dtl)) s2 m
     = check_availability P clkb db s2 m"
  by (auto simp: check_availability_iff create_appointment_appts create_appointment_fields)

text \<open>
  The two strings of the claim parse to the same time, and the second is still free after
  the first is booked.
\<close>

theorem conflict_check_is_string_equality_witness:
  "''2026-10-27T19:00:00'' \<noteq> ''2026-10-27T19:00''
   \<and> fromisoformat (replace_Z ''2026-10-27T19:00:00'') = fromisoformat (replace_Z ''2026-10-27T19:00'')
   \<and> status (snd (create_appointment example_clock empty_db ''user_1'' ''2026-10-27T19:00:00'' 2 ''General Reservation'')) = ''booked''
   \<and> check_availability fromisoformat example_clock
        (fst (create_appointment example_clock empty_db ''user_1'' ''2026-10-27T19:00:00'' 2
                ''General Reservation'')) ''2026-10-27T19:00'' 2"
proof -
  have a: "''2026-10-27T19:00:00'' \<noteq> ''2026-10-27T19:00''" by simp
  have b: "fromisoformat (replace_Z ''2026-10-27T19:00:00'') = fromisoformat (replace_Z ''2026-10-27T19:00'')"
    by code_simp
  have c: "check_availability fromisoformat example_clock empty_db ''2026-10-27T19:00'' 2"
    by code_simp
  from conflict_check_is_string_equality[OF a, of fromisoformat example_clock example_clock empty_db "''user_1''" 2 "''General Reservation''" 2] a b c
  show ?thesis by (simp add: create_appointment_fields)
qed


section \<open>Guests and phone numbers\<close>

lemma find_user_None: "find_user us c nm = None \<longleftrightarrow> c \<notin> contact_number ` set us"
  by (induction us) (auto simp: Let_def split: option.splits)

lemma find_user_Some_in: "find_user us c nm = Some p \<Longrightarrow> c \<in> contact_number ` set us"
  using find_user_None[of us c nm] by auto

lemma find_user_Some:
  "find_user us c nm = Some (us', u) \<Longrightarrow>
     map contact_number us' = map contact_number us \<and> map user_id_of us' = map user_id_of us
     \<and> contact_number u = c \<and> u \<in> set us'"
  by (induction us arbitrary: us') (auto simp: Let_def split: option.splits if_splits)

lemma find_user_name:
  "find_user us c nm = Some (us', u) \<Longrightarrow>
     (truthy_str nm \<longrightarrow> name u = the nm) \<and> (\<not> truthy_str nm \<longrightarrow> us' = us)"
  by (induction us arbitrary: us') (auto simp: Let_def split: option.splits if_splits)

lemma find_user_again:
  "find_user us c nm = Some (us', u) \<Longrightarrow>
     \<exists>us'' u'. find_user us' c nm' = Some (us'', u') \<and> user_id_of u' = user_id_of u
        \<and> (\<not> truthy_str nm' \<longrightarrow> u' = u)"
  by (induction us arbitrary: us') (auto simp: Let_def split: option.splits if_splits)

lemma find_user_new:
  "c \<notin> contact_number ` set us \<Longrightarrow> contact_number v = c \<Longrightarrow>
   find_user (us @ [v]) c nm = Some (us @ [if truthy_str nm then v\<lparr>name := the nm\<rparr> else v],
                                       if truthy_str nm then v\<lparr>name := the nm\<rparr> else v)"
  by (induction us) (auto simp: Let_def)

lemma distinct_filter_single:
  "distinct (map f xs) \<Longrightarrow> x \<in> set xs \<Longrightarrow> filter (\<lambda>y. f y = f x) xs = [x]"
  by (induction xs) (auto simp: filter_empty_conv image_iff)

lemma get_or_create_user_sound:
  assumes "distinct (map contact_number (users db))"
    and "get_or_create_user clk db c nm = (db', u)"
  shows "distinct (map contact_number (users db'))"
    and "filter (\<lambda>v. contact_number v = c) (users db') = [u]"
    and "appointments db' = appointments db"
    and "truthy_str nm \<longrightarrow> name u = the nm"
    and "c \<in> contact_number ` set (users db) \<longrightarrow> length (users db') = length (users db)"
    and "c \<in> contact_number ` set (users db) \<and> \<not> truthy_str nm \<longrightarrow> db' = db"
    and "c \<notin> contact_number ` set (users db) \<and> \<not> truthy_str nm \<longrightarrow> name u = ''Unknown''"
proof -
  show d: "distinct (map contact_number (users db'))"
    using assms
    by (auto simp: get_or_create_user_def Let_def find_user_None
             split: option.splits dest: find_user_Some)
  have "u \<in> set (users db') \<and> contact_number u = c"
    using assms(2)
    by (auto simp: get_or_create_user_def Let_def split: option.splits dest: find_user_Some)
  with distinct_filter_single[OF d, of u]
  show "filter (\<lambda>v. contact_number v = c) (users db') = [u]" by simp
  show "appointments db' = appointments db"
    using assms(2) by (auto simp: get_or_create_user_def Let_def split: option.splits)
  show "truthy_str nm \<longrightarrow> name u = the nm"
    using assms(2)
    by (auto simp: get_or_create_user_def Let_def split: option.splits dest: find_user_name)
  show "c \<in> contact_number ` set (users db) \<longrightarrow> length (users db') = length (users db)"
    using assms(2)
    by (auto simp: get_or_create_user_def Let_def find_user_None
        split: option.splits dest!: find_user_Some dest: map_eq_imp_length_eq)
  show "c \<in> contact_number ` set (users db) \<and> \<not> truthy_str nm \<longrightarrow> db' = db"
    using assms(2)
    by (auto simp: get_or_create_user_def Let_def find_user_None
        split: option.splits dest!: find_user_name)
  show "c \<notin> contact_number ` set (users db) \<and> \<not> truthy_str nm \<longrightarrow> name u = ''Unknown''"
    using assms(2)
    by (auto simp: get_or_create_user_def Let_def
        split: option.splits dest: find_user_Some_in)
qed

lemma get_or_create_user_id_stable:
  assumes "get_or_create_user clka db c nma = (dba, ua)"
      and "get_or_create_user clkb dba c nmb = (dbb, ub)"
  shows "user_id_of ub = user_id_of ua \<and> length (users dbb) = length (users dba)
       \<and> (\<not> truthy_str nmb \<longrightarrow> ub = ua \<and> dbb = dba)"
proof -
  have "\<exists>us. find_user (users dba) c nmb = Some (us, ub) \<and> dbb = dba\<lparr>users := us\<rparr>
          \<and> user_id_of ub = user_id_of ua \<and> (\<not> truthy_str nmb \<longrightarrow> ub = ua \<and> us = users dba)"
  proof (cases "find_user (users db) c nma")
    case None
    then have notin: "c \<notin> contact_number ` set (users db)" by (simp add: find_user_None)
    define v where "v = \<lparr>user_id_of = ''user_'' @ str_nat (length (users db) + 1),
                           contact_number = c,
                           name = (if truthy_str nma then the nma else ''Unknown''),
                           user_created_at = datetime_now clka\<rparr>"
    have cv: "contact_number v = c" by (simp add: v_def)
    from None assms(1) have a: "dba = db\<lparr>users := users db @ [v]\<rparr>" "ua = v"
      by (auto simp: get_or_create_user_def Let_def v_def)
    from find_user_new[OF notin cv, of nmb] assms(2) a
    show ?thesis
      by (auto simp: get_or_create_user_def Let_def)
  next
    case (Some p)
    obtain us u where p: "p = (us, u)" by (cases p)
    with Some assms(1) have a: "dba = db\<lparr>users := us\<rparr>" "ua = u"
      by (auto simp: get_or_create_user_def)
    from find_user_again[OF Some[unfolded p], of nmb] obtain us2 u2
      where f2: "find_user us c nmb = Some (us2, u2)" and "user_id_of u2 = user_id_of u"
        and "\<not> truthy_str nmb \<longrightarrow> u2 = u" by blast
    moreover from find_user_name[OF f2] have "\<not> truthy_str nmb \<longrightarrow> us2 = us" by simp
    ultimately show ?thesis using assms(2) a
      by (auto simp: get_or_create_user_def)
  qed
  then obtain us where f: "find_user (users dba) c nmb = Some (us, ub)" and d: "dbb = dba\<lparr>users := us\<rparr>"
    and i: "user_id_of ub = user_id_of ua" and k: "\<not> truthy_str nmb \<longrightarrow> ub = ua \<and> us = users dba"
    by blast
  from find_user_Some[OF f] have "length us = length (users dba)"
    by (auto dest: map_eq_imp_length_eq)
  with d i k show ?thesis by auto
qed


text \<open>
  Claim C4. In a store with at most one guest per contact number, two calls of
  \<^verbatim>\<open>get_or_create_user\<close> with the same number leave at most one guest per number, the
  second call adds no record, both return the one record stored for the number, with the
  same id; a name that is given (not \<^verbatim>\<open>None\<close> and not empty) is the name stored and
  returned, on either call, and without a name the second call leaves the stored name and
  the whole store as they were.
\<close>

theorem one_guest_per_number:
  assumes "distinct (map contact_number (users db))"
    and "get_or_create_user clka db c nma = (dba, ua)"
    and "get_or_create_user clkb dba c nmb = (dbb, ub)"
  shows "distinct (map contact_number (users dbb))
       \<and> length (users dbb) = length (users dba)
       \<and> filter (\<lambda>v. contact_number v = c) (users dba) = [ua]
       \<and> filter (\<lambda>v. contact_number v = c) (users dbb) = [ub]
       \<and> user_id_of ub = user_id_of ua
       \<and> (truthy_str nma \<longrightarrow> name ua = the nma)
       \<and> (truthy_str nmb \<longrightarrow> name ub = the nmb)
       \<and> (\<not> truthy_str nmb \<longrightarrow> name ub = name ua \<and> dbb = dba)"
proof -
  note a = get_or_create_user_sound[OF assms(1) assms(2)]
  note b = get_or_create_user_sound[OF a(1) assms(3)]
  note c = get_or_create_user_id_stable[OF assms(2) assms(3)]
  from a(2) a(4) b(1) b(2) b(4) c show ?thesis by auto
qed

text \<open>The scenario of the specification: identify as Ana, then again without a name.\<close>

theorem one_guest_per_number_witness:
  "distinct (map contact_number (users empty_db))
   \<and> get_or_create_user example_clock empty_db ''5551234567'' (Some ''Ana'') = (ana_db, ana)
   \<and> get_or_create_user example_clock ana_db ''5551234567'' None = (ana_db, ana)
   \<and> length (users ana_db) = 1
   \<and> filter (\<lambda>v. contact_number v = ''5551234567'') (users ana_db) = [ana]
   \<and> name ana = ''Ana''"
proof -
  have h1: "distinct (map contact_number (users empty_db))" by (simp add: empty_db_def)
  have h2: "get_or_create_user example_clock empty_db ''5551234567'' (Some ''Ana'') = (ana_db, ana)"
    by code_simp
  have h3: "get_or_create_user example_clock ana_db ''5551234567'' None = (ana_db, ana)"
    by code_simp
  have h4: "length (users ana_db) = 1" "name ana = ''Ana''" by (simp_all add: ana_db_def ana_def)
  from one_guest_per_number[OF h1 h2 h3] h1 h2 h3 h4 show ?thesis by simp
qed












section \<open>Modifying an appointment\<close>

lemma modify_details_only_eq:
  assumes "truthy_str (s_user_id ss)"
    and "find (\<lambda>a. appt_id a = i) (get_user_appointments db (the (s_user_id ss))) = Some original"
    and "\<not> truthy_str nst" and "\<not> truthy_int nnp" and "d \<noteq> []"
  shows "modify_appointment P clk db ss i nst nnp (Some d) =
      (fst (create_appointment clk (fst (cancel_appointment db i)) (the (s_user_id ss))
              (start_time original) (num_people original) d),
       ss,
       Inr (Modified (user_name ss) (start_time original) (num_people original)
              (appt_id (snd (create_appointment clk (fst (cancel_appointment db i))
                               (the (s_user_id ss)) (start_time original)
                               (num_people original) d)))))"
  using assms
  by (simp add: modify_appointment_def Let_def truthy_str_def split: prod.splits)

lemma find_in_user_appointments:
  "find (\<lambda>a. appt_id a = i) (get_user_appointments db uid) = Some original \<Longrightarrow>
   original \<in> set (appointments db) \<and> appt_id original = i \<and> user_id original = uid
   \<and> status original \<noteq> ''cancelled''"
  by (auto simp: find_Some_iff get_user_appointments_def dest: nth_mem)

lemma modify_not_found:
  assumes "truthy_str (s_user_id ss)"
    and "truthy_str nst \<or> truthy_int nnp \<or> truthy_str nd"
    and "i \<notin> appt_id ` set (get_user_appointments db (the (s_user_id ss)))"
  shows "modify_appointment P clk db ss i nst nnp nd = (db, ss, Inr ModifyNotFound)"
proof -
  from assms(3) have "find (\<lambda>a. appt_id a = i) (get_user_appointments db (the (s_user_id ss))) = None"
    by (auto simp: find_None_iff)
  with assms(1,2) show ?thesis
    by (auto simp: modify_appointment_def)
qed

lemma modify_rejected:
  assumes "truthy_str (s_user_id ss)"
    and "find (\<lambda>a. appt_id a = i) (get_user_appointments db (the (s_user_id ss))) = Some original"
    and "truthy_str nst"
    and "\<not> check_availability P clk db (the nst)
            (if truthy_int nnp then the nnp else num_people original)"
    and "get_next_available_slot P clk db (the nst) = Inr nxt"
  shows "modify_appointment P clk db ss i nst nnp nd =
           (db, ss, Inr (ModifyRejected (if is_past P clk (the nst) then PastDate else Unavailable)
                           nxt original))"
  using assms by (simp add: modify_appointment_def Let_def)


text \<open>
  Claim C6. For an identified guest and an appointment \<open>original\<close> found among the guest's
  active appointments, \<^verbatim>\<open>modify_appointment\<close> with new details only (no new start time,
  no new party size) answers that the reservation is updated, whatever the parser and
  the clock are: the old record is cancelled and a new booked appointment is appended,
  with the start time and the party size of \<open>original\<close>. No availability check takes
  part: where \<open>original\<close> is booked, \<^verbatim>\<open>check_availability\<close> is false for its own start
  time, and the modification goes through all the same.
\<close>

theorem modify_details_only:
  assumes "truthy_str (s_user_id ss)"
    and "find (\<lambda>a. appt_id a = i) (get_user_appointments db (the (s_user_id ss))) = Some original"
    and "\<not> truthy_str nst" and "\<not> truthy_int nnp" and "d \<noteq> []"
  shows "\<exists>db' a. modify_appointment P clk db ss i nst nnp (Some d)
            = (db', ss, Inr (Modified (user_name ss) (start_time original) (num_people original)
                               (appt_id a)))
          \<and> appointments db' = fst (cancel_loop (appointments db) i) @ [a]
          \<and> start_time a = start_time original \<and> num_people a = num_people original
          \<and> status a = ''booked''
          \<and> (status original = ''booked'' \<longrightarrow>
                \<not> check_availability P clk db (start_time original) (num_people original))"
proof -
  let ?r = "create_appointment clk (fst (cancel_appointment db i)) (the (s_user_id ss))
              (start_time original) (num_people original) d"
  have "original \<in> set (appointments db)"
    using find_in_user_appointments[OF assms(2)] by simp
  then have "status original = ''booked'' \<longrightarrow>
                \<not> check_availability P clk db (start_time original) (num_people original)"
    by (auto simp: check_availability_iff)
  moreover have "appointments (fst ?r) = fst (cancel_loop (appointments db) i) @ [snd ?r]"
    by (simp add: create_appointment_appts cancel_appointment_appts)
  ultimately show ?thesis
    using modify_details_only_eq[OF assms, of P clk]
    by (intro exI[of _ "fst ?r"] exI[of _ "snd ?r"]) (simp add: create_appointment_fields)
qed

text \<open>Ana adds a note to her booking of 19:00.\<close>

theorem modify_details_only_witness:
  "truthy_str (s_user_id ana_session)
   \<and> find (\<lambda>a. appt_id a = ''appt_1'')
         (get_user_appointments (fst booked_once) (the (s_user_id ana_session)))
       = Some (snd booked_once)
   \<and> \<not> truthy_str None \<and> \<not> truthy_int None \<and> ''Birthday'' \<noteq> []
   \<and> status (snd booked_once) = ''booked''
   \<and> \<not> check_availability fromisoformat example_clock (fst booked_once)
         (start_time (snd booked_once)) (num_people (snd booked_once))
   \<and> snd (snd (modify_appointment fromisoformat example_clock (fst booked_once) ana_session
                  ''appt_1'' None None (Some ''Birthday'')))
       = Inr (Modified ''Ana'' ''2023-10-27T19:00:00'' 2 ''appt_2'')"
proof -
  have h1: "truthy_str (s_user_id ana_session)" by code_simp
  have h2: "find (\<lambda>a. appt_id a = ''appt_1'')
         (get_user_appointments (fst booked_once) (the (s_user_id ana_session)))
       = Some (snd booked_once)" by code_simp
  have h3: "\<not> truthy_str None" and h4: "\<not> truthy_int None" and h5: "''Birthday'' \<noteq> []"
    by (simp_all add: truthy_str_def truthy_int_def)
  have b: "status (snd booked_once) = ''booked''" by code_simp
  have r: "snd (snd (modify_appointment fromisoformat example_clock (fst booked_once) ana_session
                  ''appt_1'' None None (Some ''Birthday'')))
       = Inr (Modified ''Ana'' ''2023-10-27T19:00:00'' 2 ''appt_2'')" by code_simp
  from modify_details_only[OF h1 h2 h3 h4 h5, of fromisoformat example_clock] b
  have "\<not> check_availability fromisoformat example_clock (fst booked_once)
         (start_time (snd booked_once)) (num_people (snd booked_once))" by blast
  with h1 h2 h3 h4 h5 b r show ?thesis by blast
qed

text \<open>
  Claim C5 says that \<^verbatim>\<open>modify_appointment\<close> answers "not found" for every id that is not
  among the guest's active appointments. The tool first asks what to change: with no new
  time, party size or details, an unknown id gets that answer instead.
\<close>

theorem modify_unknown_id_without_changes:
  "truthy_str (s_user_id ana_session)
   \<and> ''appt_99'' \<notin> appt_id ` set (get_user_appointments (fst booked_once) (the (s_user_id ana_session)))
   \<and> modify_appointment fromisoformat example_clock (fst booked_once) ana_session ''appt_99''
        None None None
       = (fst booked_once, ana_session, Inr SpecifyChange)
   \<and> SpecifyChange \<noteq> ModifyNotFound"
  by code_simp

text \<open>
  Claim C5, amended. For an identified guest: when a change is supplied and the id is
  not among the guest's active appointments, the answer is "not found" and store and
  session are unchanged; when the appointment is found, a new start time is supplied,
  \<^verbatim>\<open>check_availability\<close> fails for it and the search for the next slot returns \<open>nxt\<close>,
  the answer is a rejection, classified as past date or as unavailable, that carries
  \<open>nxt\<close> and the current booking, and store and session are unchanged. (A search that
  raises is left out of this statement.)
\<close>

theorem modify_failures_leave_booking:
  assumes "truthy_str (s_user_id ss)"
  shows "((truthy_str nst \<or> truthy_int nnp \<or> truthy_str nd)
            \<and> i \<notin> appt_id ` set (get_user_appointments db (the (s_user_id ss)))
          \<longrightarrow> modify_appointment P clk db ss i nst nnp nd = (db, ss, Inr ModifyNotFound))
       \<and> (find (\<lambda>a. appt_id a = i) (get_user_appointments db (the (s_user_id ss)))
              = Some original
            \<and> truthy_str nst
            \<and> \<not> check_availability P clk db (the nst)
                   (if truthy_int nnp then the nnp else num_people original)
            \<and> get_next_available_slot P clk db (the nst) = Inr nxt
          \<longrightarrow> modify_appointment P clk db ss i nst nnp nd
                = (db, ss, Inr (ModifyRejected
                                  (if is_past P clk (the nst) then PastDate else Unavailable)
                                  nxt original)))"
  using modify_not_found[OF assms] modify_rejected[OF assms] by blast

text \<open>An unknown id with a new party size, and a move of Ana's booking to the past.\<close>

theorem modify_failures_leave_booking_witness:
  "truthy_str (s_user_id ana_session)
   \<and> truthy_int (Some 4)
   \<and> ''appt_99'' \<notin> appt_id ` set (get_user_appointments (fst booked_once) (the (s_user_id ana_session)))
   \<and> modify_appointment fromisoformat example_clock (fst booked_once) ana_session ''appt_99''
        None (Some 4) None
       = (fst booked_once, ana_session, Inr ModifyNotFound)
   \<and> find (\<lambda>a. appt_id a = ''appt_1'')
         (get_user_appointments (fst booked_once) (the (s_user_id ana_session)))
       = Some (snd booked_once)
   \<and> truthy_str (Some ''2023-10-27T09:00:00'')
   \<and> \<not> check_availability fromisoformat example_clock (fst booked_once) ''2023-10-27T09:00:00'' 2
   \<and> get_next_available_slot fromisoformat example_clock (fst booked_once) ''2023-10-27T09:00:00''
       = Inr (Some ''2023-10-27T14:00:00'')
   \<and> is_past fromisoformat example_clock ''2023-10-27T09:00:00''
   \<and> modify_appointment fromisoformat example_clock (fst booked_once) ana_session ''appt_1''
        (Some ''2023-10-27T09:00:00'') None None
       = (fst booked_once, ana_session,
          Inr (ModifyRejected PastDate (Some ''2023-10-27T14:00:00'') (snd booked_once)))"
proof -
  have h: "truthy_str (s_user_id ana_session)" by code_simp
  have a1: "truthy_int (Some 4)" by code_simp
  have a2: "''appt_99'' \<notin> appt_id ` set (get_user_appointments (fst booked_once) (the (s_user_id ana_session)))"
    by code_simp
  have b1: "find (\<lambda>a. appt_id a = ''appt_1'')
         (get_user_appointments (fst booked_once) (the (s_user_id ana_session)))
       = Some (snd booked_once)" by code_simp
  have b2: "truthy_str (Some ''2023-10-27T09:00:00'')" by code_simp
  have b3: "\<not> check_availability fromisoformat example_clock (fst booked_once) ''2023-10-27T09:00:00'' 2"
    by code_simp
  have b3': "num_people (snd booked_once) = 2" "\<not> truthy_int None" by code_simp+
  have b4: "get_next_available_slot fromisoformat example_clock (fst booked_once) ''2023-10-27T09:00:00''
       = Inr (Some ''2023-10-27T14:00:00'')" by code_simp
  have b5: "is_past fromisoformat example_clock ''2023-10-27T09:00:00''" by code_simp
  from modify_failures_leave_booking[OF h, of None "Some 4" None "''appt_99''" "fst booked_once"
      fromisoformat example_clock] a1 a2
  have A: "modify_appointment fromisoformat example_clock (fst booked_once) ana_session ''appt_99''
        None (Some 4) None = (fst booked_once, ana_session, Inr ModifyNotFound)" by blast
  from modify_failures_leave_booking[OF h, where nst = "Some ''2023-10-27T09:00:00''"
      and nnp = None and nd = None and i = "''appt_1''" and db = "fst booked_once"
      and P = fromisoformat and clk = example_clock and original = "snd booked_once"
      and nxt = "Some ''2023-10-27T14:00:00''"] b1 b2 b3 b3' b4 b5
  have B: "modify_appointment fromisoformat example_clock (fst booked_once) ana_session ''appt_1''
        (Some ''2023-10-27T09:00:00'') None None
       = (fst booked_once, ana_session,
          Inr (ModifyRejected PastDate (Some ''2023-10-27T14:00:00'') (snd booked_once)))"
    by simp
  from h a1 a2 A b1 b2 b3 b4 b5 B show ?thesis by blast
qed

section \<open>The next free slot\<close>

text \<open>
  Claim C3 says that \<^verbatim>\<open>get_next_available_slot\<close> returns a slot or \<^verbatim>\<open>None\<close>, without
  error, for every input. A time with an offset, which the function itself prepares for
  by replacing \<^verbatim>\<open>Z\<close>, parses to an aware value, and \<^verbatim>\<open>max(dt, now)\<close> then raises
  \<^verbatim>\<open>TypeError\<close>; the exception leaves \<^verbatim>\<open>book_appointment\<close> too, which calls the search
  for every time that \<^verbatim>\<open>check_availability\<close> refuses.
\<close>

theorem next_slot_raises_on_aware_time:
  "fromisoformat (replace_Z ''2023-10-27T23:00:00Z'')
     = Some ((combine (2023, 10, 27) 23)\<lparr>tzinfo := Some 0\<rparr>)
   \<and> get_next_available_slot fromisoformat example_clock ana_db ''2023-10-27T23:00:00Z''
       = Inl TypeError
   \<and> \<not> check_availability fromisoformat example_clock ana_db ''2023-10-27T23:00:00Z'' 2
   \<and> book_appointment fromisoformat example_clock ana_db ana_session ''2023-10-27T23:00:00Z'' 2
        None None ''General Reservation''
       = (ana_db, ana_session, Inl TypeError)"
  by code_simp


text \<open>
  For a time without offset, and for one that does not parse, the search is the scan of
  seven days from the reference time: a slot it returns is a candidate hour of one of
  these days, lies after the reference time and passes \<^verbatim>\<open>check_availability\<close>; when it
  returns \<^verbatim>\<open>None\<close>, every candidate is at or before the reference time or unavailable.
\<close>

lemma scan_hours_None:
  "scan_hours P clk db ref dd hs = None \<longleftrightarrow>
   (\<forall>h \<in> set hs. dt_le (combine dd h) ref
        \<or> \<not> check_availability P clk db (strftime (combine dd h)) 1)"
  by (induction hs) (auto simp: Let_def)

lemma scan_hours_find:
  "scan_hours P clk db ref dd hs =
     map_option (\<lambda>h. strftime (combine dd h))
       (find (\<lambda>h. \<not> dt_le (combine dd h) ref
                  \<and> check_availability P clk db (strftime (combine dd h)) 1) hs)"
  by (induction hs) (auto simp: Let_def)

lemma scan_hours_sound:
  "scan_hours P clk db ref dd hs = Some s \<Longrightarrow>
   \<exists>h \<in> set hs. s = strftime (combine dd h) \<and> dt_less ref (combine dd h)
      \<and> check_availability P clk db s 1"
  by (induction hs) (auto simp: Let_def dt_le_def dt_less_def split: if_splits)

lemma scan_days_sound:
  "scan_days P clk db ref ks = Inr (Some s) \<Longrightarrow>
   \<exists>k \<in> set ks. \<exists>dd. date_add_days (year ref, month ref, day ref) k = Some dd
      \<and> (\<exists>h \<in> set available_hours. s = strftime (combine dd h) \<and> dt_less ref (combine dd h))
      \<and> check_availability P clk db s 1"
proof (induction ks)
  case Nil
  then show ?case by simp
next
  case (Cons k ks)
  show ?case
  proof (cases "date_add_days (year ref, month ref, day ref) k")
    case None
    with Cons.prems show ?thesis by simp
  next
    case (Some dd)
    note day = this
    show ?thesis
    proof (cases "scan_hours P clk db ref dd available_hours")
      case None
      with day Cons.prems have "scan_days P clk db ref ks = Inr (Some s)" by simp
      from Cons.IH[OF this] show ?thesis by simp
    next
      case (Some s')
      with day Cons.prems have "s' = s" by simp
      from scan_hours_sound[OF Some] obtain h where h: "h \<in> set available_hours"
        "s' = strftime (combine dd h)" "dt_less ref (combine dd h)"
        "check_availability P clk db s' 1" by blast
      have "\<exists>dd. date_add_days (year ref, month ref, day ref) k = Some dd
        \<and> (\<exists>h \<in> set available_hours. s = strftime (combine dd h) \<and> dt_less ref (combine dd h))
        \<and> check_availability P clk db s 1"
        using h \<open>s' = s\<close> day by blast
      then show ?thesis by simp
    qed
  qed
qed

lemma scan_days_None:
  "scan_days P clk db ref ks = Inr None \<Longrightarrow>
   \<forall>k \<in> set ks. \<exists>dd. date_add_days (year ref, month ref, day ref) k = Some dd
      \<and> (\<forall>h \<in> set available_hours. dt_le (combine dd h) ref
             \<or> \<not> check_availability P clk db (strftime (combine dd h)) 1)"
proof (induction ks)
  case Nil
  then show ?case by simp
next
  case (Cons k ks)
  then show ?case
    by (auto simp: scan_hours_None split: option.splits)
qed

lemma get_next_available_slot_aware:
  "P (replace_Z ft) = Some d \<Longrightarrow> tzinfo d = Some off \<Longrightarrow>
   get_next_available_slot P clk db ft = Inl TypeError"
  by (simp add: get_next_available_slot_def)

lemma get_next_available_slot_naive:
  "P (replace_Z ft) = None \<or> (\<exists>d. P (replace_Z ft) = Some d \<and> tzinfo d = None) \<Longrightarrow>
   get_next_available_slot P clk db ft = scan_days P clk db (reference_time P clk ft) [0..<7]"
  by (auto simp: get_next_available_slot_def reference_time_def Let_def datetime_now_def)

lemma next_slot_found:
  assumes "P (replace_Z ft) = None \<or> (\<exists>d. P (replace_Z ft) = Some d \<and> tzinfo d = None)"
    and "get_next_available_slot P clk db ft = Inr (Some s)"
  shows "\<exists>k < 7. \<exists>dd. date_add_days (year (reference_time P clk ft),
                         month (reference_time P clk ft), day (reference_time P clk ft)) k = Some dd
      \<and> (\<exists>h \<in> set available_hours. s = strftime (combine dd h)
             \<and> dt_less (reference_time P clk ft) (combine dd h))
      \<and> check_availability P clk db s 1"
proof -
  from assms(2) have "scan_days P clk db (reference_time P clk ft) [0..<7] = Inr (Some s)"
    unfolding get_next_available_slot_naive[where P = P and ft = ft, OF assms(1)] .
  from scan_days_sound[OF this] obtain k where "k \<in> set [0..<7]"
    and rest: "\<exists>dd. date_add_days (year (reference_time P clk ft),
                         month (reference_time P clk ft), day (reference_time P clk ft)) k = Some dd
      \<and> (\<exists>h \<in> set available_hours. s = strftime (combine dd h)
             \<and> dt_less (reference_time P clk ft) (combine dd h))
      \<and> check_availability P clk db s 1"
    by blast
  then have "k < 7" by simp
  with rest show ?thesis by blast
qed

lemma next_slot_none:
  assumes "P (replace_Z ft) = None \<or> (\<exists>d. P (replace_Z ft) = Some d \<and> tzinfo d = None)"
    and "get_next_available_slot P clk db ft = Inr None"
  shows "\<forall>k < 7. \<exists>dd. date_add_days (year (reference_time P clk ft),
                         month (reference_time P clk ft), day (reference_time P clk ft)) k = Some dd
      \<and> (\<forall>h \<in> set available_hours. dt_le (combine dd h) (reference_time P clk ft)
             \<or> \<not> check_availability P clk db (strftime (combine dd h)) 1)"
proof (intro allI impI)
  fix k :: nat
  assume "k < 7"
  then have k: "k \<in> set [0..<7]" by simp
  from assms(2) have "scan_days P clk db (reference_time P clk ft) [0..<7] = Inr None"
    unfolding get_next_available_slot_naive[where P = P and ft = ft, OF assms(1)] .
  from scan_days_None[OF this] k
  show "\<exists>dd. date_add_days (year (reference_time P clk ft),
                         month (reference_time P clk ft), day (reference_time P clk ft)) k = Some dd
      \<and> (\<forall>h \<in> set available_hours. dt_le (combine dd h) (reference_time P clk ft)
             \<or> \<not> check_availability P clk db (strftime (combine dd h)) 1)"
    by blast
qed

section \<open>Booking the same slot twice\<close>

lemma book_appointment_identified:
  "truthy_str (s_user_id ss) \<Longrightarrow>
   book_appointment P clk db ss st n nm c dtl = book_identified P clk db ss st n dtl"
  by (simp add: book_appointment_def)

lemma book_identified_free:
  "check_availability P clk db st n \<Longrightarrow>
   book_identified P clk db ss st n dtl =
     (fst (create_appointment clk db (the (s_user_id ss)) st n dtl),
      ss\<lparr>session_bookings := session_bookings ss
            @ [snd (create_appointment clk db (the (s_user_id ss)) st n dtl)]\<rparr>,
      Inr (Booked (user_name ss) st n
             (appt_id (snd (create_appointment clk db (the (s_user_id ss)) st n dtl)))))"
  by (simp add: book_identified_def Let_def user_name_def split: prod.splits)

lemma book_identified_taken:
  "\<not> check_availability P clk db st n \<Longrightarrow> get_next_available_slot P clk db st = Inr nxt \<Longrightarrow>
   book_identified P clk db ss st n dtl =
     (db, ss, Inr (BookRejected (if is_past P clk st then PastDate else Unavailable) nxt))"
  by (simp add: book_identified_def)

lemma parse_evening: "fromisoformat (replace_Z ''2023-10-27T19:00:00'') = Some (combine (2023, 10, 27) 19)"
  by code_simp

lemma parse_morning: "fromisoformat (replace_Z ''2023-10-28T10:00:00'') = Some (combine (2023, 10, 28) 10)"
  by code_simp

lemma strftime_morning: "strftime (combine (2023, 10, 28) 10) = ''2023-10-28T10:00:00''"
  by code_simp

lemma evening_day: "next_day (2023, 10, 27) = Some (2023, 10, 28)"
  by code_simp

lemma evening_hours_passed:
  "\<forall>h \<in> set available_hours. dt_le (combine (2023, 10, 27) h) (combine (2023, 10, 27) 19)"
  by code_simp

lemma morning_after_evening:
  "\<not> dt_le (combine (2023, 10, 28) 10) (combine (2023, 10, 27) 19)"
  "wall_us (combine (2023, 10, 27) 19) \<le> wall_us (combine (2023, 10, 28) 10)"
  by code_simp+

lemma timestamp_naive_mono:
  "tzinfo a = None \<Longrightarrow> tzinfo b = None \<Longrightarrow> wall_us a \<le> wall_us b \<Longrightarrow>
   timestamp clk a \<le> timestamp clk b"
  by (simp add: timestamp_def)

lemma next_slot_after_evening:
  assumes late: "not_after clk (combine (2023, 10, 27) 19)"
    and free: "\<not> list_ex (\<lambda>a. start_time a = ''2023-10-28T10:00:00'' \<and> status a = ''booked'')
                  (appointments db)"
  shows "get_next_available_slot fromisoformat clk db ''2023-10-27T19:00:00''
           = Inr (Some ''2023-10-28T10:00:00'')"
proof -
  define d19 where "d19 = combine (2023, 10, 27) 19"
  define d10 where "d10 = combine (2023, 10, 28) 10"
  have fields: "year d19 = 2023" "month d19 = 10" "day d19 = 27" "tzinfo d19 = None"
    "tzinfo d10 = None" "hour d10 = 10"
    by (simp_all add: d19_def d10_def combine_def)
  from late have le: "dt_le (datetime_now clk) d19"
    and ts: "timestamp clk (datetime_now clk) \<le> timestamp clk d19"
    by (simp_all add: not_after_def d19_def)
  from le have ref: "\<not> dt_less d19 (datetime_now clk)"
    by (simp add: dt_le_def dt_less_def not_less)
  have "timestamp clk d19 \<le> timestamp clk d10"
    using morning_after_evening(2) fields by (simp add: timestamp_naive_mono d19_def d10_def)
  with ts have fresh: "\<not> timestamp clk d10 < timestamp clk (datetime_now clk) - 120000000"
    by simp
  have ok: "check_availability fromisoformat clk db ''2023-10-28T10:00:00'' 1"
    unfolding check_availability_iff parse_morning
    using fresh free fields
    by (simp add: d10_def[symmetric] opening_hour_def closing_hour_def list_ex_iff)
  have day0: "scan_hours fromisoformat clk db d19 (2023, 10, 27) available_hours = None"
    unfolding scan_hours_None d19_def using evening_hours_passed by blast
  have day1: "scan_hours fromisoformat clk db d19 (2023, 10, 28) available_hours
                = Some ''2023-10-28T10:00:00''"
    using morning_after_evening(1) ok
    by (simp add: available_hours_def Let_def d19_def strftime_morning)
  have upt: "[0..<7] = 0 # 1 # [2..<7]"
    by (simp add: upt_rec)
  have "scan_days fromisoformat clk db d19 [0..<7] = Inr (Some ''2023-10-28T10:00:00'')"
    unfolding upt by (simp add: fields evening_day day0 day1)
  then show ?thesis
    unfolding get_next_available_slot_def parse_evening
    using ref fields by (simp add: d19_def[symmetric] Let_def)
qed

lemma rebooking_evening:
  assumes ident: "truthy_str (s_user_id ss)"
    and late: "not_after clk (combine (2023, 10, 27) 19)"
    and free_morning:
      "\<not> list_ex (\<lambda>a. start_time a = ''2023-10-28T10:00:00'' \<and> status a = ''booked'')
           (appointments db)"
    and taken: "\<not> check_availability fromisoformat clk db ''2023-10-27T19:00:00'' n"
  shows "book_appointment fromisoformat clk db ss ''2023-10-27T19:00:00'' n nm cn dtl
           = (db, ss, Inr (BookRejected Unavailable (Some ''2023-10-28T10:00:00'')))"
proof -
  note nxt = next_slot_after_evening[OF late free_morning]
  from late have "\<not> is_past fromisoformat clk ''2023-10-27T19:00:00''"
    unfolding is_past_def parse_evening by (simp add: not_after_def)
  then show ?thesis
    unfolding book_appointment_identified[OF ident] book_identified_taken[OF taken nxt]
    by simp
qed

lemma first_booking_value:
  "first_booking
     = (ana_booked_db, ana_booked_session, Inr (Booked ''Ana'' ''2023-10-27T19:00:00'' 2 ''appt_1''))"
  by code_simp

lemma later_slots_free:
  "check_availability fromisoformat example_clock ana_booked_db ''2023-10-27T20:00:00'' 2"
  "check_availability fromisoformat example_clock ana_booked_db ''2023-10-27T21:00:00'' 2"
  by code_simp+

lemma second_booking_value:
  "second_booking = (ana_booked_db, ana_booked_session,
        Inr (BookRejected Unavailable (Some ''2023-10-28T10:00:00'')))"
proof -
  have a: "truthy_str (s_user_id ana_booked_session)" by code_simp
  have b: "not_after example_clock (combine (2023, 10, 27) 19)" by code_simp
  have c: "\<not> list_ex (\<lambda>a. start_time a = ''2023-10-28T10:00:00'' \<and> status a = ''booked'')
         (appointments ana_booked_db)" by code_simp
  have d: "\<not> check_availability fromisoformat example_clock ana_booked_db ''2023-10-27T19:00:00'' 2"
    by code_simp
  show ?thesis
    unfolding second_booking_def first_booking_value fst_conv snd_conv
    by (rule rebooking_evening[OF a b c d])
qed

text \<open>
  Claim C9 says that the second request for 2023-10-27T19:00:00 is refused with a
  suggestion of 20:00 or 21:00 of the same day. The search tries the hours 10, 14, 17,
  18 and 19 only: in the scenario the first request is booked, the second is refused as
  unavailable with the suggestion 2023-10-28T10:00:00, while 20:00 and 21:00 of the same
  day are within the opening hours and free.
\<close>

theorem second_booking_suggests_next_morning:
  "snd (snd first_booking) = Inr (Booked ''Ana'' ''2023-10-27T19:00:00'' 2 ''appt_1'')
   \<and> snd (snd second_booking) = Inr (BookRejected Unavailable (Some ''2023-10-28T10:00:00''))
   \<and> check_availability fromisoformat example_clock (fst second_booking) ''2023-10-27T20:00:00'' 2
   \<and> check_availability fromisoformat example_clock (fst second_booking) ''2023-10-27T21:00:00'' 2
   \<and> ''2023-10-28T10:00:00'' \<noteq> ''2023-10-27T20:00:00''
   \<and> ''2023-10-28T10:00:00'' \<noteq> ''2023-10-27T21:00:00''"
  unfolding second_booking_value first_booking_value fst_conv snd_conv
  using later_slots_free by simp

text \<open>
  Claim C9, amended. For an identified guest and a store with no booked appointment at
  2023-10-27T19:00:00 nor at 2023-10-28T10:00:00: a request for 2023-10-27T19:00:00 for
  two, made not more than 120 seconds after that time, is booked; a second request for
  the same time, made not after that time, changes nothing and is refused as unavailable
  with the suggestion 2023-10-28T10:00:00, the next candidate among the hours 10, 14, 17,
  18 and 19.
\<close>

theorem book_twice_same_slot:
  assumes ident: "truthy_str (s_user_id ss)"
    and free_evening:
      "\<not> list_ex (\<lambda>a. start_time a = ''2023-10-27T19:00:00'' \<and> status a = ''booked'')
           (appointments db)"
    and free_morning:
      "\<not> list_ex (\<lambda>a. start_time a = ''2023-10-28T10:00:00'' \<and> status a = ''booked'')
           (appointments db)"
    and in_time: "\<not> timestamp clka (combine (2023, 10, 27) 19)
                     < timestamp clka (datetime_now clka) - 120000000"
    and late: "not_after clkb (combine (2023, 10, 27) 19)"
    and first: "book_appointment fromisoformat clka db ss ''2023-10-27T19:00:00'' 2 nma cna dtla
                  = (dba, ssa, ra)"
    and second: "book_appointment fromisoformat clkb dba ssa ''2023-10-27T19:00:00'' 2 nmb cnb dtlb
                  = (dbb, ssb, rb)"
  shows "ra = Inr (Booked (user_name ss) ''2023-10-27T19:00:00'' 2
                     (''appt_'' @ str_nat (length (appointments db) + 1)))
       \<and> rb = Inr (BookRejected Unavailable (Some ''2023-10-28T10:00:00''))
       \<and> dbb = dba \<and> ssb = ssa"
proof -
  define d19 where "d19 = combine (2023, 10, 27) 19"
  define cr where "cr = create_appointment clka db (the (s_user_id ss)) ''2023-10-27T19:00:00'' 2 dtla"
  have h19: "hour d19 = 19" by (simp add: d19_def combine_def)
  have avail: "check_availability fromisoformat clka db ''2023-10-27T19:00:00'' 2"
    unfolding check_availability_iff parse_evening
    using in_time free_evening h19
    by (simp add: d19_def[symmetric] opening_hour_def closing_hour_def list_ex_iff)
  from first have a: "dba = fst cr"
    "ssa = ss\<lparr>session_bookings := session_bookings ss @ [snd cr]\<rparr>"
    "ra = Inr (Booked (user_name ss) ''2023-10-27T19:00:00'' 2 (appt_id (snd cr)))"
    unfolding book_appointment_identified[OF ident] book_identified_free[OF avail] cr_def
    by simp_all
  have apps: "appointments dba = appointments db @ [snd cr]"
    unfolding a cr_def by (rule create_appointment_appts)
  have new: "start_time (snd cr) = ''2023-10-27T19:00:00''" "status (snd cr) = ''booked''"
    "appt_id (snd cr) = ''appt_'' @ str_nat (length (appointments db) + 1)"
    unfolding cr_def by (rule create_appointment_fields)+
  have ident': "truthy_str (s_user_id ssa)" using ident by (simp add: a)
  have taken: "\<not> check_availability fromisoformat clkb dba ''2023-10-27T19:00:00'' 2"
    unfolding check_availability_iff apps using new by auto
  have free': "\<not> list_ex (\<lambda>a. start_time a = ''2023-10-28T10:00:00'' \<and> status a = ''booked'')
            (appointments dba)"
    unfolding apps using free_morning new by (simp add: list_ex_iff)
  from second have "dbb = dba" "ssb = ssa"
    "rb = Inr (BookRejected Unavailable (Some ''2023-10-28T10:00:00''))"
    unfolding rebooking_evening[OF ident' late free' taken]
    by simp_all
  with a(3) new(3) show ?thesis by simp
qed


text \<open>Ana, already identified, asks twice at noon of the same day.\<close>

theorem book_twice_same_slot_witness:
  "truthy_str (s_user_id ana_session)
   \<and> \<not> list_ex (\<lambda>a. start_time a = ''2023-10-27T19:00:00'' \<and> status a = ''booked'')
         (appointments ana_db)
   \<and> \<not> list_ex (\<lambda>a. start_time a = ''2023-10-28T10:00:00'' \<and> status a = ''booked'')
         (appointments ana_db)
   \<and> \<not> timestamp example_clock (combine (2023, 10, 27) 19)
         < timestamp example_clock (datetime_now example_clock) - 120000000
   \<and> not_after example_clock (combine (2023, 10, 27) 19)
   \<and> book_appointment fromisoformat example_clock ana_db ana_session ''2023-10-27T19:00:00'' 2
        None None ''General Reservation''
       = (ana_booked_db, ana_booked_session,
          Inr (Booked ''Ana'' ''2023-10-27T19:00:00'' 2 ''appt_1''))
   \<and> book_appointment fromisoformat example_clock ana_booked_db ana_booked_session
        ''2023-10-27T19:00:00'' 2 None None ''General Reservation''
       = (ana_booked_db, ana_booked_session,
          Inr (BookRejected Unavailable (Some ''2023-10-28T10:00:00'')))"
proof -
  have w1: "truthy_str (s_user_id ana_session)" by code_simp
  have w2: "\<not> list_ex (\<lambda>a. start_time a = ''2023-10-27T19:00:00'' \<and> status a = ''booked'')
         (appointments ana_db)" by code_simp
  have w3: "\<not> list_ex (\<lambda>a. start_time a = ''2023-10-28T10:00:00'' \<and> status a = ''booked'')
         (appointments ana_db)" by code_simp
  have w4: "\<not> timestamp example_clock (combine (2023, 10, 27) 19)
         < timestamp example_clock (datetime_now example_clock) - 120000000" by code_simp
  have w5: "not_after example_clock (combine (2023, 10, 27) 19)" by code_simp
  have w6: "book_appointment fromisoformat example_clock ana_db ana_session ''2023-10-27T19:00:00'' 2
        None None ''General Reservation''
       = (ana_booked_db, ana_booked_session,
          Inr (Booked ''Ana'' ''2023-10-27T19:00:00'' 2 ''appt_1''))" by code_simp
  obtain dbb ssb rb where w7: "book_appointment fromisoformat example_clock ana_booked_db
        ana_booked_session ''2023-10-27T19:00:00'' 2 None None ''General Reservation''
       = (dbb, ssb, rb)" by (rule prod_cases3)
  from book_twice_same_slot[OF w1 w2 w3 w4 w5 w6 w7]
  have "rb = Inr (BookRejected Unavailable (Some ''2023-10-28T10:00:00''))"
    "dbb = ana_booked_db" "ssb = ana_booked_session" by simp_all
  with w7 have "book_appointment fromisoformat example_clock ana_booked_db ana_booked_session
        ''2023-10-27T19:00:00'' 2 None None ''General Reservation''
       = (ana_booked_db, ana_booked_session,
          Inr (BookRejected Unavailable (Some ''2023-10-28T10:00:00'')))" by simp
  with w1 w2 w3 w4 w5 w6 show ?thesis by blast
qed

end
